theory Spec2Isabelle
  imports Main
begin

section \<open>JavaScript values\<close>

text \<open>
  A property that holds a string or is \<open>null\<close>/\<open>undefined\<close> is a \<open>string option\<close>;
  a property that holds a number or is missing is an \<open>int option\<close>. Every number of
  the program is a whole number of seconds (\<open>Math.floor(Date.now() / 1000)\<close> and sums
  of such), so \<open>int\<close> is used and \<open>isNaN\<close> is never true.

  \<open>truthy\<close> and \<open>truthy_num\<close> are JavaScript's conversion to boolean, as used by
  \<open>!x\<close>, \<open>if (x)\<close> and \<open>x || y\<close>: a missing value, the empty string and zero are
  falsy.
\<close>

definition truthy :: "string option \<Rightarrow> bool" where
  "truthy v = (case v of None \<Rightarrow> False | Some s \<Rightarrow> s \<noteq> [])"

definition truthy_num :: "int option \<Rightarrow> bool" where
  "truthy_num v = (case v of None \<Rightarrow> False | Some n \<Rightarrow> n \<noteq> 0)"

text \<open>
  \<open>a || b\<close> on strings, and \<open>a || d\<close> on numbers where \<open>d\<close> is a number.
\<close>

definition or_else :: "string option \<Rightarrow> string option \<Rightarrow> string option" where
  "or_else a b = (if truthy a then a else b)"

definition num_or :: "int option \<Rightarrow> int \<Rightarrow> int" where
  "num_or a d = (case a of None \<Rightarrow> d | Some n \<Rightarrow> if n \<noteq> 0 then n else d)"


section \<open>Data of \<open>oauth-v2.ts\<close>\<close>

text \<open>
  \<open>OAuthTokenResponse\<close> is the body of the legacy (v1) token endpoint,
  \<open>OAuthV2TokenResponse\<close> the body of the v2 endpoints and the normalised record.
  The TypeScript interfaces declare the fields as present, but the bodies come from
  \<open>axios\<close> as \<open>any\<close>, so each field may be missing at run time.
\<close>

record OAuthTokenResponse =
  v1_access_token :: "string option"
  v1_refresh_token :: "string option"
  v1_merchant_id :: "string option"
  v1_expires_in :: "int option"

record OAuthV2TokenResponse =
  access_token :: "string option"
  refresh_token :: "string option"
  merchant_id :: "string option"
  access_token_expiry :: "int option"
  refresh_token_expiry :: "int option"

record OAuthConfig =
  clientId :: string
  clientSecret :: string
  baseUrl :: string
  redirectUrl :: string

text \<open>The module variable \<open>currentTokens\<close>.\<close>

record current_tokens =
  accessToken :: "string option"
  refreshToken :: "string option"
  merchantId :: "string option"
  accessTokenExpiry :: "int option"
  refreshTokenExpiry :: "int option"

definition initial_tokens :: current_tokens where
  "initial_tokens = \<lparr>accessToken = None, refreshToken = None, merchantId = None,
     accessTokenExpiry = None, refreshTokenExpiry = None\<rparr>"

text \<open>
  Exceptions. \<open>AxiosError message response_message\<close> is an error for which
  \<open>axios.isAxiosError\<close> holds, with \<open>error.message\<close> and
  \<open>error.response?.data?.message\<close>; \<open>Error\<close> is a plain \<open>Error\<close> with its message;
  \<open>TypeError\<close> is what reading a property of \<open>null\<close> throws.
\<close>

datatype error =
    AxiosError string "string option"
  | Error string
  | TypeError string

fun message :: "error \<Rightarrow> string" where
  "message (AxiosError m r) = m"
| "message (Error m) = m"
| "message (TypeError m) = m"


section \<open>The outside world\<close>

text \<open>
  Requests sent to the authorization server (\<open>axios.post\<close>) and to the merchant API
  (\<open>baseClient(config)\<close>) are recorded in a trace, in the order in which they are
  sent.
\<close>

datatype encoding = Json | Form

record http_request =
  url :: string
  encoding :: encoding
  params :: "(string \<times> string) list"

record api_request =
  path :: string
  authorization :: "string option"
  retry_flag :: bool

datatype action = Http_post http_request | Api_dispatch api_request

text \<open>
  What a request of the merchant API comes back with: a response with its status and
  body, or no response at all.
\<close>

datatype api_outcome = Response nat string | No_response string

text \<open>
  The environment answers every request, and tells the time. An answer may depend on
  everything that has been sent before, so the same request can be answered differently
  the second time. \<open>axios.post\<close> either throws (\<open>Inl\<close>: no response, or a status
  outside 2xx) or returns the parsed body (\<open>Inr\<close>). A body is a JSON object, some of
  whose fields may be missing, or \<open>null\<close> (\<open>None\<close>); bodies that are neither are
  not modelled.
\<close>

record env =
  post_json :: "action list \<Rightarrow> http_request \<Rightarrow> error + OAuthV2TokenResponse option"
  post_form :: "action list \<Rightarrow> http_request \<Rightarrow> error + OAuthTokenResponse option"
  api :: "action list \<Rightarrow> api_request \<Rightarrow> api_outcome"
  clock :: "action list \<Rightarrow> int"

text \<open>
  How the promise returned by \<open>startOAuthFlow\<close> is settled, and what the callback
  listener answers to the browser.
\<close>

datatype settlement = Resolved OAuthV2TokenResponse | Rejected error

datatype page = Success_page | Text string

text \<open>
  The state: \<open>currentTokens\<close>, the fields of the \<open>OAuthV2Client\<close> object, and what can
  be observed from outside. A promise is named by a number; \<open>promiseResolve\<close> and
  \<open>promiseReject\<close> hold the number of the promise whose functions they are. \<open>server\<close>
  holds the port of the listener. \<open>timers\<close> counts the pending
  \<open>setTimeout(() => this.closeServer(), 3000)\<close>, \<open>closing\<close> the calls of
  \<open>server.close\<close> whose callback has not run yet.
\<close>

record system =
  config :: OAuthConfig
  currentTokens :: current_tokens
  server :: "nat option"
  state :: string
  promiseResolve :: "nat option"
  promiseReject :: "nat option"
  promises :: nat
  settled :: "(nat \<times> settlement) list"
  replies :: "(nat \<times> page) list"
  timers :: nat
  closing :: nat
  trace :: "action list"

definition initial :: "OAuthConfig \<Rightarrow> system" where
  "initial cfg = \<lparr>config = cfg, currentTokens = initial_tokens, server = None, state = [],
     promiseResolve = None, promiseReject = None, promises = 0, settled = [], replies = [],
     timers = 0, closing = 0, trace = []\<rparr>"


section \<open>The credential store\<close>

text \<open>
  \<open>setTokens\<close> copies the five fields. It also rewrites two lines of the file \<open>.env\<close>,
  inside a \<open>try\<close> that swallows every error; the file is not part of the state here.
\<close>

definition setTokens :: "OAuthV2TokenResponse \<Rightarrow> system \<Rightarrow> system" where
  "setTokens tokens w = w\<lparr>currentTokens :=
     \<lparr>accessToken = access_token tokens,
      refreshToken = refresh_token tokens,
      merchantId = merchant_id tokens,
      accessTokenExpiry = access_token_expiry tokens,
      refreshTokenExpiry = refresh_token_expiry tokens\<rparr>\<rparr>"

definition hasValidTokens :: "current_tokens \<Rightarrow> int \<Rightarrow> bool" where
  "hasValidTokens t now =
     (if \<not> truthy (accessToken t) \<or> \<not> truthy (merchantId t) then False
      else (case accessTokenExpiry t of
              None \<Rightarrow> True
            | Some e \<Rightarrow> if e \<noteq> 0 then (if now \<ge> e then False else True) else True))"


section \<open>The token exchange protocol\<close>

definition send_post :: "http_request \<Rightarrow> system \<Rightarrow> system" where
  "send_post r w = w\<lparr>trace := trace w @ [Http_post r]\<rparr>"

text \<open>The four requests to the authorization server.\<close>

definition exchange_request_v2 :: "OAuthConfig \<Rightarrow> string \<Rightarrow> http_request" where
  "exchange_request_v2 cfg code =
     \<lparr>url = baseUrl cfg @ ''/oauth/v2/token'', encoding = Json,
      params = [(''client_id'', clientId cfg), (''client_secret'', clientSecret cfg),
                (''code'', code)]\<rparr>"

definition exchange_request_v1 :: "OAuthConfig \<Rightarrow> string \<Rightarrow> http_request" where
  "exchange_request_v1 cfg code =
     \<lparr>url = baseUrl cfg @ ''/oauth/token'', encoding = Form,
      params = [(''client_id'', clientId cfg), (''client_secret'', clientSecret cfg),
                (''code'', code)]\<rparr>"

definition refresh_request_v2 :: "OAuthConfig \<Rightarrow> string \<Rightarrow> http_request" where
  "refresh_request_v2 cfg rt =
     \<lparr>url = baseUrl cfg @ ''/oauth/v2/refresh'', encoding = Json,
      params = [(''client_id'', clientId cfg), (''client_secret'', clientSecret cfg),
                (''refresh_token'', rt)]\<rparr>"

definition refresh_request_v1 :: "OAuthConfig \<Rightarrow> string \<Rightarrow> http_request" where
  "refresh_request_v1 cfg rt =
     \<lparr>url = baseUrl cfg @ ''/oauth/token'', encoding = Form,
      params = [(''client_id'', clientId cfg), (''client_secret'', clientSecret cfg),
                (''refresh_token'', rt)]\<rparr>"

text \<open>Reading \<open>v1Data.access_token\<close> when the body is \<open>null\<close>.\<close>

definition null_body :: error where
  "null_body = TypeError ''Cannot read properties of null (reading 'access_token')''"

text \<open>The outer \<open>catch\<close> of \<open>exchangeCodeForTokens\<close> and of \<open>refreshAccessToken\<close>.\<close>

fun rethrow_exchange :: "error \<Rightarrow> error" where
  "rethrow_exchange (AxiosError m r) =
     Error (''OAuth error: '' @ (case r of None \<Rightarrow> m | Some s \<Rightarrow> if s \<noteq> [] then s else m))"
| "rethrow_exchange err = err"

fun rethrow_refresh :: "error \<Rightarrow> error" where
  "rethrow_refresh (AxiosError m r) =
     Error ''OAuth refresh error: Token expired or invalid. Please reauthenticate.''"
| "rethrow_refresh err = err"

text \<open>
  \<open>exchangeCodeForTokens\<close>: the v2 endpoint first; whatever it returns is returned
  as it is. When the v2 request throws, the v1 endpoint, whose body is converted.
\<close>

definition exchangeCodeForTokens ::
  "env \<Rightarrow> string \<Rightarrow> system \<Rightarrow> (error + OAuthV2TokenResponse option) \<times> system" where
  "exchangeCodeForTokens e code w =
     (let r2 = exchange_request_v2 (config w) code; w1 = send_post r2 w in
      case post_json e (trace w) r2 of
        Inr data \<Rightarrow> (Inr data, w1)
      | Inl v2Error \<Rightarrow>
          (let r1 = exchange_request_v1 (config w) code; w2 = send_post r1 w1 in
           case post_form e (trace w1) r1 of
             Inl err \<Rightarrow> (Inl (rethrow_exchange err), w2)
           | Inr None \<Rightarrow> (Inl (rethrow_exchange null_body), w2)
           | Inr (Some v1Data) \<Rightarrow>
               (let now = clock e (trace w2) in
                (Inr (Some
                   \<lparr>access_token = v1_access_token v1Data,
                    refresh_token = or_else (v1_refresh_token v1Data) (Some []),
                    merchant_id = v1_merchant_id v1Data,
                    access_token_expiry = Some (now + num_or (v1_expires_in v1Data) 3600),
                    refresh_token_expiry = Some (now + 30 * 86400)\<rparr>), w2))))"

text \<open>
  The v1 branch of \<open>refreshAccessToken\<close> (the inner \<open>catch\<close>): fields the body lacks
  are taken from \<open>currentTokens\<close>.
\<close>

definition refresh_v1 ::
  "env \<Rightarrow> string \<Rightarrow> system \<Rightarrow> (error + OAuthV2TokenResponse) \<times> system" where
  "refresh_v1 e rt w1 =
     (let r1 = refresh_request_v1 (config w1) rt; w2 = send_post r1 w1 in
      case post_form e (trace w1) r1 of
        Inl err \<Rightarrow> (Inl (rethrow_refresh err), w2)
      | Inr None \<Rightarrow> (Inl (rethrow_refresh null_body), w2)
      | Inr (Some v1Data) \<Rightarrow>
          (let now = clock e (trace w2); t = currentTokens w2;
               transformedData =
                 \<lparr>access_token = v1_access_token v1Data,
                  refresh_token = or_else (v1_refresh_token v1Data) (refreshToken t),
                  merchant_id = or_else (v1_merchant_id v1Data) (merchantId t),
                  access_token_expiry = Some (now + num_or (v1_expires_in v1Data) 3600),
                  refresh_token_expiry =
                    Some (num_or (refreshTokenExpiry t) (now + 30 * 86400))\<rparr>
           in (Inr transformedData, setTokens transformedData w2)))"

text \<open>
  \<open>refreshAccessToken\<close>. The v2 body is stored as it is. \<open>setTokens\<close> stands inside
  the inner \<open>try\<close>, so a \<open>null\<close> body, on which \<open>setTokens\<close> throws before it writes
  anything, leads to the v1 branch as a failed request does.
\<close>

definition refreshAccessToken ::
  "env \<Rightarrow> system \<Rightarrow> (error + OAuthV2TokenResponse) \<times> system" where
  "refreshAccessToken e w =
     (case refreshToken (currentTokens w) of
        None \<Rightarrow> (Inl (Error ''No refresh token available''), w)
      | Some rt \<Rightarrow>
          if rt = [] then (Inl (Error ''No refresh token available''), w)
          else
            (let r2 = refresh_request_v2 (config w) rt; w1 = send_post r2 w in
             case post_json e (trace w) r2 of
               Inr (Some data) \<Rightarrow> (Inr data, setTokens data w1)
             | Inr None \<Rightarrow> refresh_v1 e rt w1
             | Inl v2Error \<Rightarrow> refresh_v1 e rt w1))"

definition ensureValidToken :: "env \<Rightarrow> system \<Rightarrow> (error + string option) \<times> system" where
  "ensureValidToken e w =
     (if \<not> hasValidTokens (currentTokens w) (clock e (trace w)) then
        if truthy (refreshToken (currentTokens w)) then
          (case refreshAccessToken e w of
             (Inr tokenResponse, w') \<Rightarrow> (Inr (access_token tokenResponse), w')
           | (Inl err, w') \<Rightarrow>
               (Inl (Error ''Unable to refresh token. Please re-authenticate.''), w'))
        else
          (Inl (Error ''No valid tokens available. Please authenticate using the OAuth flow.''), w)
      else (Inr (accessToken (currentTokens w)), w))"


section \<open>The authorization flow\<close>

definition resolvePromise :: "OAuthV2TokenResponse \<Rightarrow> system \<Rightarrow> system" where
  "resolvePromise v w =
     (case promiseResolve w of
        Some p \<Rightarrow> w\<lparr>settled := settled w @ [(p, Resolved v)],
                    promiseResolve := None, promiseReject := None\<rparr>
      | None \<Rightarrow> w)"

definition rejectPromise :: "error \<Rightarrow> system \<Rightarrow> system" where
  "rejectPromise reason w =
     (case promiseReject w of
        Some p \<Rightarrow> w\<lparr>settled := settled w @ [(p, Rejected reason)],
                    promiseReject := None, promiseResolve := None\<rparr>
      | None \<Rightarrow> w)"

definition closeServer :: "system \<Rightarrow> system" where
  "closeServer w = (if server w \<noteq> None then w\<lparr>closing := Suc (closing w)\<rparr> else w)"

text \<open>
  \<open>startOAuthFlow port\<close>, with the random \<open>state\<close> it draws. It makes a new promise
  and either rejects it at once, or keeps its two functions and starts the listener.
\<close>

definition startOAuthFlow :: "nat \<Rightarrow> string \<Rightarrow> system \<Rightarrow> system" where
  "startOAuthFlow port rnd w =
     (let p = promises w; w0 = w\<lparr>promises := Suc p\<rparr> in
      if server w0 \<noteq> None then
        w0\<lparr>settled := settled w0 @ [(p, Rejected (Error ''OAuth server is already running''))]\<rparr>
      else
        w0\<lparr>promiseResolve := Some p, promiseReject := Some p, state := rnd,
           server := Some port\<rparr>)"

text \<open>The query of a request to \<open>/oauth-callback\<close>.\<close>

record query =
  q_code :: "string option"
  q_state :: "string option"
  q_merchant_id :: "string option"
  q_client_id :: "string option"

definition reply :: "nat \<Rightarrow> page \<Rightarrow> system \<Rightarrow> system" where
  "reply status body w = w\<lparr>replies := replies w @ [(status, body)]\<rparr>"

definition missing_code :: "system \<Rightarrow> system" where
  "missing_code w =
     rejectPromise (Error ''Missing authorization code'')
       (reply 400 (Text ''Error: Missing authorization code'') w)"

text \<open>
  What the handler does with the record it got: the merchant id of the query when
  the record has none, then the two default expiries.
\<close>

definition complete_response :: "int \<Rightarrow> query \<Rightarrow> OAuthV2TokenResponse \<Rightarrow> OAuthV2TokenResponse" where
  "complete_response now q tokenResponse =
     (let t1 = (if \<not> truthy (merchant_id tokenResponse) \<and> truthy (q_merchant_id q)
                then tokenResponse\<lparr>merchant_id := q_merchant_id q\<rparr> else tokenResponse);
          t2 = (if \<not> truthy_num (access_token_expiry t1)
                then t1\<lparr>access_token_expiry := Some (now + 3600)\<rparr> else t1);
          t3 = (if \<not> truthy_num (refresh_token_expiry t2)
                then t2\<lparr>refresh_token_expiry := Some (now + 30 * 86400)\<rparr> else t2)
      in t3)"

text \<open>
  The handler of \<open>GET /oauth-callback\<close>. The comparison of \<open>state\<close> only logs. The
  handler is taken as one step: what another request does while this one awaits the
  exchange is not modelled.
\<close>

definition oauth_callback :: "env \<Rightarrow> query \<Rightarrow> system \<Rightarrow> system" where
  "oauth_callback e q w =
     (case q_code q of
        None \<Rightarrow> missing_code w
      | Some code \<Rightarrow>
          if code = [] then missing_code w
          else
            (case exchangeCodeForTokens e code w of
               (Inr (Some tokenResponse), w1) \<Rightarrow>
                 (let t = complete_response (clock e (trace w1)) q tokenResponse;
                      w2 = setTokens t w1;
                      w3 = reply 200 Success_page w2;
                      w4 = resolvePromise t w3
                  in w4\<lparr>timers := Suc (timers w4)\<rparr>)
             | (Inr None, w1) \<Rightarrow>
                 rejectPromise (Error ''No tokens in response'')
                   (reply 500 (Text ''Error: Failed to obtain tokens'') w1)
             | (Inl err, w1) \<Rightarrow>
                 rejectPromise err (reply 500 (Text (''Error: '' @ message err)) w1)))"

text \<open>
  The other things that happen to the listener: its \<open>error\<close> event, a timer of the
  success branch running \<open>closeServer\<close>, and the callback of \<open>server.close\<close>.
\<close>

definition server_error :: "error \<Rightarrow> system \<Rightarrow> system" where
  "server_error err w = rejectPromise err w"

definition timer_fires :: "system \<Rightarrow> system" where
  "timer_fires w = (if timers w = 0 then w else closeServer (w\<lparr>timers := timers w - 1\<rparr>))"

definition close_completes :: "system \<Rightarrow> system" where
  "close_completes w =
     (if closing w = 0 then w else w\<lparr>closing := closing w - 1, server := None\<rparr>)"


section \<open>The request decorator of \<open>clover-client.ts\<close>\<close>

datatype api_result =
    Fulfilled nat string
  | Rejected_response nat string
  | Rejected_no_response string
  | Rejected_error error

definition bearer :: "string option \<Rightarrow> string" where
  "bearer token = ''Bearer '' @ (case token of None \<Rightarrow> ''undefined'' | Some t \<Rightarrow> t)"

text \<open>
  \<open>baseClient(config)\<close>: the request interceptor, the request itself, the response
  interceptor. \<open>retry_flag\<close> is \<open>config._retry\<close>. An error of the request interceptor
  has no \<open>response\<close>, so the response interceptor passes it on.
\<close>

function baseClient :: "env \<Rightarrow> api_request \<Rightarrow> system \<Rightarrow> api_result \<times> system" where
  "baseClient e rq w =
     (case ensureValidToken e w of
        (Inl err, w1) \<Rightarrow> (Rejected_error err, w1)
      | (Inr token, w1) \<Rightarrow>
          (let rq1 = rq\<lparr>authorization := Some (bearer token)\<rparr>;
               w2 = w1\<lparr>trace := trace w1 @ [Api_dispatch rq1]\<rparr> in
           case api e (trace w1) rq1 of
             No_response m \<Rightarrow> (Rejected_no_response m, w2)
           | Response status body \<Rightarrow>
               if 200 \<le> status \<and> status < 300 then (Fulfilled status body, w2)
               else if status = 401 \<and> \<not> retry_flag rq1 then
                 (case refreshAccessToken e w2 of
                    (Inl refreshError, w3) \<Rightarrow> (Rejected_error refreshError, w3)
                  | (Inr tokens, w3) \<Rightarrow> baseClient e (rq1\<lparr>retry_flag := True\<rparr>) w3)
               else (Rejected_response status body, w2)))"
  by pat_completeness auto
termination
  by (relation "measure (\<lambda>(e, rq, w). if retry_flag rq then 0 else 1)") auto

declare baseClient.simps [simp del]

text \<open>The requests of a trace that went to the merchant API, in order.\<close>

fun dispatched :: "action list \<Rightarrow> api_request list" where
  "dispatched [] = []"
| "dispatched (Http_post r # t) = dispatched t"
| "dispatched (Api_dispatch r # t) = r # dispatched t"


section \<open>Events\<close>

text \<open>
  What can happen to a client, one event at a time: a call of \<open>startOAuthFlow\<close>, a
  request to the callback listener or an error of it (both only while there is a
  listener), a timer, the end of \<open>server.close\<close>, and the calls of the API client.
\<close>

datatype event =
    Start nat string
  | Callback query
  | Server_error error
  | Timer
  | Close_done
  | Refresh
  | Ensure
  | Send api_request

fun step :: "env \<Rightarrow> event \<Rightarrow> system \<Rightarrow> system" where
  "step e (Start port rnd) w = startOAuthFlow port rnd w"
| "step e (Callback q) w = (if server w = None then w else oauth_callback e q w)"
| "step e (Server_error err) w = (if server w = None then w else server_error err w)"
| "step e Timer w = timer_fires w"
| "step e Close_done w = close_completes w"
| "step e Refresh w = snd (refreshAccessToken e w)"
| "step e Ensure w = snd (ensureValidToken e w)"
| "step e (Send rq) w = snd (baseClient e rq w)"

definition run :: "env \<Rightarrow> event list \<Rightarrow> system \<Rightarrow> system" where
  "run e evs w = fold (step e) evs w"

text \<open>
  Calls of \<open>resolvePromise\<close> and \<open>rejectPromise\<close>, and what the caller of
  \<open>startOAuthFlow\<close> sees of one when it goes through.
\<close>

datatype resolution = Resolve OAuthV2TokenResponse | Reject error

fun deliver :: "resolution \<Rightarrow> system \<Rightarrow> system" where
  "deliver (Resolve v) w = resolvePromise v w"
| "deliver (Reject reason) w = rejectPromise reason w"

fun outcome :: "resolution \<Rightarrow> settlement" where
  "outcome (Resolve v) = Resolved v"
| "outcome (Reject reason) = Rejected reason"

text \<open>
  What holds of the promises in every state that can be reached: the two functions
  kept are those of one promise; no promise has been settled twice; the promise whose
  functions are kept has not been settled.
\<close>

definition promises_ok :: "system \<Rightarrow> bool" where
  "promises_ok w \<longleftrightarrow>
     promiseResolve w = promiseReject w \<and>
     distinct (map fst (settled w)) \<and>
     list_all (\<lambda>p. p < promises w) (map fst (settled w)) \<and>
     (case promiseResolve w of None \<Rightarrow> True
      | Some p \<Rightarrow> p < promises w \<and> p \<notin> set (map fst (settled w)))"


section \<open>\<open>hasValidTokens\<close> as the specification words it\<close>

text \<open>
  The specification: false when the access token is absent, when the merchant id is
  absent, or when \<open>now >= access_token_expiry\<close>; true otherwise.
\<close>

definition spec_hasValidTokens :: "current_tokens \<Rightarrow> int \<Rightarrow> bool" where
  "spec_hasValidTokens t now =
     (if accessToken t = None then False
      else if merchantId t = None then False
      else (case accessTokenExpiry t of None \<Rightarrow> True | Some e \<Rightarrow> \<not> now \<ge> e))"


section \<open>Concrete clients and environments\<close>

definition example_config :: OAuthConfig where
  "example_config = \<lparr>clientId = ''app'', clientSecret = ''secret'',
     baseUrl = ''https://sandbox.dev.clover.com'',
     redirectUrl = ''http://localhost:4000/oauth-callback''\<rparr>"

definition example_tokens :: OAuthV2TokenResponse where
  "example_tokens = \<lparr>access_token = Some ''tok0'', refresh_token = Some ''ref0'',
     merchant_id = Some ''M0'', access_token_expiry = Some 5000,
     refresh_token_expiry = Some 90000\<rparr>"

definition second_tokens :: OAuthV2TokenResponse where
  "second_tokens = \<lparr>access_token = Some ''tok1'', refresh_token = Some ''ref1'',
     merchant_id = Some ''M9'', access_token_expiry = Some 6000,
     refresh_token_expiry = Some 91000\<rparr>"

text \<open>A v2 body with neither refresh token, merchant id nor refresh expiry.\<close>

definition omitted_body :: OAuthV2TokenResponse where
  "omitted_body = \<lparr>access_token = Some ''tok1'', refresh_token = None, merchant_id = None,
     access_token_expiry = Some 9000, refresh_token_expiry = None\<rparr>"

text \<open>The v2 endpoints answer 404, the legacy endpoint answers with a token.\<close>

definition legacy_env :: env where
  "legacy_env =
     \<lparr>post_json = (\<lambda>t r. Inl (AxiosError ''Request failed with status code 404'' None)),
      post_form = (\<lambda>t r. Inr (Some \<lparr>v1_access_token = Some ''tok123'', v1_refresh_token = None,
                     v1_merchant_id = Some ''M1'', v1_expires_in = Some 1800\<rparr>)),
      api = (\<lambda>t r. Response 200 []),
      clock = (\<lambda>t. 1000)\<rparr>"

text \<open>The v2 endpoints answer with \<open>example_tokens\<close> first and \<open>second_tokens\<close> later.\<close>

definition v2_env :: env where
  "v2_env =
     \<lparr>post_json = (\<lambda>t r. if t = [] then Inr (Some example_tokens) else Inr (Some second_tokens)),
      post_form = (\<lambda>t r. Inl (AxiosError ''Network Error'' None)),
      api = (\<lambda>t r. Response 200 []),
      clock = (\<lambda>t. 1000)\<rparr>"

text \<open>The v2 endpoints answer with \<open>omitted_body\<close>.\<close>

definition omitting_env :: env where
  "omitting_env =
     \<lparr>post_json = (\<lambda>t r. Inr (Some omitted_body)),
      post_form = (\<lambda>t r. Inl (AxiosError ''Network Error'' None)),
      api = (\<lambda>t r. Response 200 []),
      clock = (\<lambda>t. 1000)\<rparr>"

text \<open>The v2 endpoints answer 200 with the body \<open>null\<close>; the legacy endpoint would answer.\<close>

definition null_body_env :: env where
  "null_body_env =
     \<lparr>post_json = (\<lambda>t r. Inr None),
      post_form = (\<lambda>t r. Inr (Some \<lparr>v1_access_token = Some ''tok123'', v1_refresh_token = None,
                     v1_merchant_id = Some ''M1'', v1_expires_in = Some 1800\<rparr>)),
      api = (\<lambda>t r. Response 200 []),
      clock = (\<lambda>t. 1000)\<rparr>"

text \<open>The merchant API answers 401; a refresh succeeds, or fails on both tiers.\<close>

definition unauthorized_env :: env where
  "unauthorized_env =
     \<lparr>post_json = (\<lambda>t r. Inr (Some second_tokens)),
      post_form = (\<lambda>t r. Inl (AxiosError ''Network Error'' None)),
      api = (\<lambda>t r. Response 401 ''unauthorized''),
      clock = (\<lambda>t. 1000)\<rparr>"

definition refresh_fails_env :: env where
  "refresh_fails_env =
     \<lparr>post_json = (\<lambda>t r. Inl (AxiosError ''Request failed with status code 400'' None)),
      post_form = (\<lambda>t r. Inl (AxiosError ''Request failed with status code 400'' None)),
      api = (\<lambda>t r. Response 401 ''unauthorized''),
      clock = (\<lambda>t. 1000)\<rparr>"

text \<open>
  A merchant API that answers 401 to a first attempt and 200 to a retried one; and a
  merchant API that always answers 401 while the clock passes the expiry of the
  refreshed token before the retry.
\<close>

definition retry_ok_env :: env where
  "retry_ok_env =
     \<lparr>post_json = (\<lambda>t r. Inr (Some second_tokens)),
      post_form = (\<lambda>t r. Inl (AxiosError ''Network Error'' None)),
      api = (\<lambda>t r. if retry_flag r then Response 200 ''items'' else Response 401 ''unauthorized''),
      clock = (\<lambda>t. 1000)\<rparr>"

definition slow_env :: env where
  "slow_env =
     \<lparr>post_json = (\<lambda>t r. Inr (Some second_tokens)),
      post_form = (\<lambda>t r. Inl (AxiosError ''Network Error'' None)),
      api = (\<lambda>t r. Response 401 ''unauthorized''),
      clock = (\<lambda>t. if length t < 2 then 1000 else 7000)\<rparr>"

text \<open>The v2 endpoints answer with a record whose access token expiry is 0.\<close>

definition zero_expiry_env :: env where
  "zero_expiry_env =
     \<lparr>post_json = (\<lambda>t r. Inr (Some (second_tokens\<lparr>access_token_expiry := Some 0\<rparr>))),
      post_form = (\<lambda>t r. Inl (AxiosError ''Network Error'' None)),
      api = (\<lambda>t r. Response 200 []),
      clock = (\<lambda>t. 1000)\<rparr>"

definition zero_expiry_tokens :: current_tokens where
  "zero_expiry_tokens = \<lparr>accessToken = Some ''tok1'', refreshToken = Some ''ref1'',
     merchantId = Some ''M9'', accessTokenExpiry = Some 0, refreshTokenExpiry = Some 91000\<rparr>"

definition refresh_error :: error where
  "refresh_error = Error ''OAuth refresh error: Token expired or invalid. Please reauthenticate.''"

text \<open>A client after \<open>startOAuthFlow(4000)\<close>, and a client that holds \<open>example_tokens\<close>.\<close>

definition example_session :: system where
  "example_session = startOAuthFlow 4000 ''5f2a'' (initial example_config)"

definition authenticated :: system where
  "authenticated = setTokens example_tokens (initial example_config)"

definition no_code :: query where
  "no_code = \<lparr>q_code = None, q_state = Some ''5f2a'', q_merchant_id = Some ''M1'',
     q_client_id = Some ''app''\<rparr>"

definition with_code :: "string \<Rightarrow> query" where
  "with_code c = \<lparr>q_code = Some c, q_state = Some ''5f2a'', q_merchant_id = None,
     q_client_id = Some ''app''\<rparr>"


definition after_first_callback :: system where
  "after_first_callback = oauth_callback v2_env (with_code ''codeA'') example_session"

definition items_request :: api_request where
  "items_request = \<lparr>path = ''/v3/merchants/M0/items'', authorization = None,
     retry_flag = False\<rparr>"


section \<open>Properties\<close>

subsection \<open>Promises\<close>

lemma deliver_settled:
  "promiseResolve w = None \<Longrightarrow> promiseReject w = None \<Longrightarrow> deliver ev w = w"
  by (cases ev) (simp_all add: resolvePromise_def rejectPromise_def)

lemma fold_deliver_settled:
  "promiseResolve w = None \<Longrightarrow> promiseReject w = None \<Longrightarrow> fold deliver evs w = w"
  by (induction evs) (simp_all add: deliver_settled)

lemma deliver_pending:
  "promiseResolve w = Some p \<Longrightarrow> promiseReject w = Some p \<Longrightarrow>
   deliver ev w = w\<lparr>settled := settled w @ [(p, outcome ev)],
                     promiseResolve := None, promiseReject := None\<rparr>"
  by (cases ev) (simp_all add: resolvePromise_def rejectPromise_def)

lemma resolvePromise_tokens: "currentTokens (resolvePromise v w) = currentTokens w"
  by (simp add: resolvePromise_def split: option.split)

lemma resolvePromise_settled:
  "settled (resolvePromise v w) =
     settled w @ (case promiseResolve w of None \<Rightarrow> [] | Some p \<Rightarrow> [(p, Resolved v)])"
  by (simp add: resolvePromise_def split: option.split)



lemma rejectPromise_replies: "replies (rejectPromise r w) = replies w"
  by (simp add: rejectPromise_def split: option.split)

text \<open>
  C2. After a call of \<open>startOAuthFlow\<close> that started a session, whatever calls of
  \<open>resolvePromise\<close> and \<open>rejectPromise\<close> follow, the caller sees at most one
  settlement of its promise: that of the first call. Every later call changes nothing.
\<close>

theorem C2_first_resolution_wins:
  assumes "server w = None"
  shows "settled (fold deliver evs (startOAuthFlow port rnd w)) =
           settled w @ (case evs of [] \<Rightarrow> [] | ev # rest \<Rightarrow> [(promises w, outcome ev)])"
proof (cases evs)
  case Nil
  with assms show ?thesis by (simp add: startOAuthFlow_def Let_def)
next
  case (Cons ev rest)
  let ?w0 = "startOAuthFlow port rnd w"
  have p: "promiseResolve ?w0 = Some (promises w)" "promiseReject ?w0 = Some (promises w)"
    and s: "settled ?w0 = settled w"
    using assms by (simp_all add: startOAuthFlow_def Let_def)
  have "fold deliver rest (deliver ev ?w0) = deliver ev ?w0"
    by (rule fold_deliver_settled) (simp_all add: deliver_pending [OF p])
  then show ?thesis
    using Cons s by (simp add: deliver_pending [OF p])
qed

theorem C2_first_resolution_wins_witness:
  "settled (fold deliver [Reject (Error ''Missing authorization code''), Resolve example_tokens,
              Reject (Error ''late'')]
     (startOAuthFlow 4000 ''5f2a'' (initial example_config))) =
   [(0, Rejected (Error ''Missing authorization code''))]"
proof -
  have a: "server (initial example_config) = None"
    by (simp add: initial_def)
  have b: "promises (initial example_config) = 0" "settled (initial example_config) = []"
    by (simp_all add: initial_def)
  show ?thesis
    using C2_first_resolution_wins [OF a, of "[Reject (Error ''Missing authorization code''),
      Resolve example_tokens, Reject (Error ''late'')]" 4000 "''5f2a''"]
    by (simp only: b list.case append_Nil outcome.simps)
qed


subsection \<open>\<open>hasValidTokens\<close>\<close>

lemma authenticated_eq:
  "authenticated = \<lparr>config = example_config,
     currentTokens = \<lparr>accessToken = Some ''tok0'', refreshToken = Some ''ref0'',
       merchantId = Some ''M0'', accessTokenExpiry = Some 5000, refreshTokenExpiry = Some 90000\<rparr>,
     server = None, state = [], promiseResolve = None, promiseReject = None, promises = 0,
     settled = [], replies = [], timers = 0, closing = 0, trace = []\<rparr>"
  by (simp add: authenticated_def setTokens_def initial_def example_tokens_def)

text \<open>
  C4, as the code has it. \<open>hasValidTokens\<close> is false exactly when the access token is
  missing or empty, or the merchant id is missing or empty, or the expiry of the access
  token is there, is not zero, and \<open>now\<close> has reached it. A missing expiry and the
  expiry 0 never make it false.
\<close>

theorem C4_hasValidTokens:
  "hasValidTokens t now \<longleftrightarrow>
     truthy (accessToken t) \<and> truthy (merchantId t) \<and>
     (case accessTokenExpiry t of None \<Rightarrow> True | Some e \<Rightarrow> e = 0 \<or> now < e)"
  by (auto simp: hasValidTokens_def split: option.splits)

theorem C4_hasValidTokens_witness:
  "hasValidTokens \<lparr>accessToken = Some ''tok123'', refreshToken = None, merchantId = Some ''M1'',
      accessTokenExpiry = Some 1800, refreshTokenExpiry = None\<rparr> 5
   \<and> \<not> hasValidTokens \<lparr>accessToken = Some ''tok123'', refreshToken = None,
      merchantId = Some ''M1'', accessTokenExpiry = Some 1800, refreshTokenExpiry = None\<rparr> 1800"
  by (simp add: C4_hasValidTokens truthy_def)

text \<open>
  C4 as the specification words it fails where the stored expiry is 0, as it is after a
  v2 refresh whose body says so: \<open>now >= 0\<close> holds, and \<open>hasValidTokens\<close> is true.
\<close>

theorem C4_counterexample:
  "currentTokens (snd (refreshAccessToken zero_expiry_env authenticated)) = zero_expiry_tokens
   \<and> hasValidTokens zero_expiry_tokens 5 \<noteq> spec_hasValidTokens zero_expiry_tokens 5"
  by (simp add: authenticated_eq refreshAccessToken_def zero_expiry_env_def Let_def
      setTokens_def send_post_def second_tokens_def zero_expiry_tokens_def
      hasValidTokens_def spec_hasValidTokens_def truthy_def)


subsection \<open>\<open>exchangeCodeForTokens\<close>\<close>

lemma exchange_keeps:
  "exchangeCodeForTokens e code w = (r, w1) \<Longrightarrow>
     promiseResolve w1 = promiseResolve w \<and> promiseReject w1 = promiseReject w \<and>
     settled w1 = settled w \<and> currentTokens w1 = currentTokens w \<and> server w1 = server w \<and>
     replies w1 = replies w \<and> timers w1 = timers w \<and> closing w1 = closing w \<and>
     promises w1 = promises w \<and> config w1 = config w"
  by (auto simp: exchangeCodeForTokens_def Let_def send_post_def split: sum.splits option.splits)

text \<open>
  C7. When the v2 request fails and the legacy endpoint answers
  \<open>{access_token: "tok123", merchant_id: "M1", expires_in: 1800}\<close> without a refresh
  token, \<open>exchangeCodeForTokens\<close> returns the record with the empty refresh token and
  the expiries \<open>now + 1800\<close> and \<open>now + 2592000\<close>, \<open>now\<close> being the time read after the
  legacy answer.
\<close>

theorem C7_legacy_normalization:
  assumes "post_json e (trace w) (exchange_request_v2 (config w) code) = Inl v2Error"
    and "post_form e (trace w @ [Http_post (exchange_request_v2 (config w) code)])
           (exchange_request_v1 (config w) code) =
         Inr (Some \<lparr>v1_access_token = Some ''tok123'', v1_refresh_token = None,
                    v1_merchant_id = Some ''M1'', v1_expires_in = Some 1800\<rparr>)"
    and "now = clock e (trace w @ [Http_post (exchange_request_v2 (config w) code),
                                   Http_post (exchange_request_v1 (config w) code)])"
  shows "fst (exchangeCodeForTokens e code w) =
         Inr (Some \<lparr>access_token = Some ''tok123'', refresh_token = Some [],
                    merchant_id = Some ''M1'', access_token_expiry = Some (now + 1800),
                    refresh_token_expiry = Some (now + 2592000)\<rparr>)"
  using assms
  by (simp add: exchangeCodeForTokens_def Let_def send_post_def or_else_def truthy_def num_or_def)

theorem C7_legacy_normalization_witness:
  "fst (exchangeCodeForTokens legacy_env ''code1'' (initial example_config)) =
         Inr (Some \<lparr>access_token = Some ''tok123'', refresh_token = Some [],
                    merchant_id = Some ''M1'', access_token_expiry = Some 2800,
                    refresh_token_expiry = Some 2593000\<rparr>)"
proof -
  let ?w = "initial example_config"
  have a: "post_json legacy_env (trace ?w) (exchange_request_v2 (config ?w) ''code1'') =
           Inl (AxiosError ''Request failed with status code 404'' None)"
    by (simp add: legacy_env_def)
  have b: "post_form legacy_env (trace ?w @ [Http_post (exchange_request_v2 (config ?w) ''code1'')])
           (exchange_request_v1 (config ?w) ''code1'') =
         Inr (Some \<lparr>v1_access_token = Some ''tok123'', v1_refresh_token = None,
                    v1_merchant_id = Some ''M1'', v1_expires_in = Some 1800\<rparr>)"
    by (simp add: legacy_env_def)
  have c: "1000 = clock legacy_env (trace ?w @ [Http_post (exchange_request_v2 (config ?w) ''code1''),
                                   Http_post (exchange_request_v1 (config ?w) ''code1'')])"
    by (simp add: legacy_env_def)
  show ?thesis
    using C7_legacy_normalization [OF a b c] by simp
qed

text \<open>
  C6, as the code has it. When the v2 request throws, the legacy request is sent
  next, form-encoded, with the same client id, client secret and code.
  \<open>exchangeCodeForTokens\<close> throws only when the v2 request threw and the legacy
  request threw too or answered \<open>null\<close>. When the v2 request returns, its body is
  returned as it is, whatever it holds, and the legacy endpoint is not asked.
\<close>

theorem C6_fallback_when_v2_throws:
  "(post_json e (trace w) (exchange_request_v2 (config w) code) = Inl v2Error \<longrightarrow>
      trace (snd (exchangeCodeForTokens e code w)) =
        trace w @ [Http_post (exchange_request_v2 (config w) code),
                   Http_post (exchange_request_v1 (config w) code)])
   \<and> exchange_request_v1 (config w) code =
        \<lparr>url = baseUrl (config w) @ ''/oauth/token'', encoding = Form,
         params = params (exchange_request_v2 (config w) code)\<rparr>
   \<and> params (exchange_request_v2 (config w) code) =
        [(''client_id'', clientId (config w)), (''client_secret'', clientSecret (config w)),
         (''code'', code)]
   \<and> (fst (exchangeCodeForTokens e code w) = Inl err \<longrightarrow>
        isl (post_json e (trace w) (exchange_request_v2 (config w) code)) \<and>
        (case post_form e (trace w @ [Http_post (exchange_request_v2 (config w) code)])
                (exchange_request_v1 (config w) code) of
           Inl v1Error \<Rightarrow> True | Inr body \<Rightarrow> body = None))
   \<and> (post_json e (trace w) (exchange_request_v2 (config w) code) = Inr data \<longrightarrow>
        exchangeCodeForTokens e code w =
          (Inr data, send_post (exchange_request_v2 (config w) code) w))"
  by (auto simp: exchangeCodeForTokens_def Let_def send_post_def exchange_request_v1_def
      exchange_request_v2_def split: sum.splits option.splits)

theorem C6_fallback_when_v2_throws_witness:
  "trace (snd (exchangeCodeForTokens legacy_env ''codeA'' (initial example_config))) =
     [Http_post (exchange_request_v2 example_config ''codeA''),
      Http_post (exchange_request_v1 example_config ''codeA'')]
   \<and> fst (exchangeCodeForTokens refresh_fails_env ''codeA'' (initial example_config)) =
       Inl (Error ''OAuth error: Request failed with status code 400'')
   \<and> isl (post_json refresh_fails_env [] (exchange_request_v2 example_config ''codeA''))
   \<and> exchangeCodeForTokens v2_env ''codeA'' (initial example_config) =
       (Inr (Some example_tokens),
        send_post (exchange_request_v2 example_config ''codeA'') (initial example_config))"
proof -
  let ?w = "initial example_config"
  have w: "trace ?w = []" "config ?w = example_config"
    by (simp_all add: initial_def)
  have a: "post_json legacy_env (trace ?w) (exchange_request_v2 (config ?w) ''codeA'') =
      Inl (AxiosError ''Request failed with status code 404'' None)"
    by (simp add: legacy_env_def)
  have b: "fst (exchangeCodeForTokens refresh_fails_env ''codeA'' ?w) =
       Inl (Error ''OAuth error: Request failed with status code 400'')"
    by (simp add: exchangeCodeForTokens_def Let_def refresh_fails_env_def)
  have c: "post_json v2_env (trace ?w) (exchange_request_v2 (config ?w) ''codeA'') =
      Inr (Some example_tokens)"
    by (simp add: v2_env_def w)
  note t = C6_fallback_when_v2_throws [of legacy_env ?w "''codeA''", THEN conjunct1,
      THEN mp, OF a]
  note u = C6_fallback_when_v2_throws [of refresh_fails_env ?w "''codeA''", THEN conjunct2,
      THEN conjunct2, THEN conjunct2, THEN conjunct1, THEN mp, OF b, THEN conjunct1]
  note v = C6_fallback_when_v2_throws [of v2_env ?w "''codeA''", THEN conjunct2,
      THEN conjunct2, THEN conjunct2, THEN conjunct2, THEN mp, OF c]
  show ?thesis
    using t u v b by (simp only: w append_Nil simp_thms)
qed


subsection \<open>\<open>refreshAccessToken\<close>\<close>

text \<open>
  The legacy branch keeps what it knew: a refresh token and a merchant id that were
  there are still there, and the refresh expiry that was there is unchanged.
\<close>

lemma legacy_refresh_keeps_known_fields:
  assumes "refresh_v1 e rt w = (Inr tokens, w')"
  shows "(truthy (refreshToken (currentTokens w)) \<longrightarrow> truthy (refreshToken (currentTokens w')))
    \<and> (truthy (merchantId (currentTokens w)) \<longrightarrow> truthy (merchantId (currentTokens w')))
    \<and> (truthy_num (refreshTokenExpiry (currentTokens w)) \<longrightarrow>
          refreshTokenExpiry (currentTokens w') = refreshTokenExpiry (currentTokens w))"
  using assms
  by (auto simp: refresh_v1_def Let_def send_post_def setTokens_def or_else_def num_or_def
      truthy_num_def split: sum.splits option.splits)



lemma refresh_fails:
  "refreshAccessToken refresh_fails_env (authenticated\<lparr>trace := t\<rparr>) =
     (Inl refresh_error,
      authenticated\<lparr>trace := t @ [Http_post (refresh_request_v2 example_config ''ref0''),
                                  Http_post (refresh_request_v1 example_config ''ref0'')]\<rparr>)"
  by (simp add: refreshAccessToken_def refresh_v1_def refresh_fails_env_def authenticated_eq
      Let_def send_post_def refresh_error_def)

text \<open>
  C1 does not hold on the v2 tier. The client holds a refresh token, a merchant id
  and a refresh expiry; the v2 refresh endpoint answers with a body that has none of
  the three; the refresh succeeds, and the three stored fields are gone.
\<close>

theorem C1_v2_refresh_clears_fields:
  "fst (refreshAccessToken omitting_env authenticated) = Inr omitted_body
   \<and> currentTokens authenticated =
       \<lparr>accessToken = Some ''tok0'', refreshToken = Some ''ref0'', merchantId = Some ''M0'',
        accessTokenExpiry = Some 5000, refreshTokenExpiry = Some 90000\<rparr>
   \<and> currentTokens (snd (refreshAccessToken omitting_env authenticated)) =
       \<lparr>accessToken = Some ''tok1'', refreshToken = None, merchantId = None,
        accessTokenExpiry = Some 9000, refreshTokenExpiry = None\<rparr>"
  by (simp add: authenticated_eq refreshAccessToken_def omitting_env_def Let_def
      setTokens_def send_post_def omitted_body_def)


subsection \<open>The callback listener\<close>

lemma example_session_eq:
  "example_session = \<lparr>config = example_config, currentTokens = initial_tokens, server = Some 4000,
     state = ''5f2a'', promiseResolve = Some 0, promiseReject = Some 0, promises = 1, settled = [],
     replies = [], timers = 0, closing = 0, trace = []\<rparr>"
  by (simp add: example_session_def startOAuthFlow_def initial_def Let_def)

lemma missing_code_effect:
  "missing_code w = (case promiseReject w of
      None \<Rightarrow> w\<lparr>replies := replies w @ [(400, Text ''Error: Missing authorization code'')]\<rparr>
    | Some p \<Rightarrow> w\<lparr>replies := replies w @ [(400, Text ''Error: Missing authorization code'')],
         settled := settled w @ [(p, Rejected (Error ''Missing authorization code''))],
         promiseReject := None, promiseResolve := None\<rparr>)"
  by (simp add: missing_code_def rejectPromise_def reply_def split: option.split)

lemma callback_success:
  assumes "q_code q = Some code" and "code \<noteq> []"
    and "exchangeCodeForTokens e code w = (Inr (Some tokenResponse), w1)"
  shows "oauth_callback e q w =
     (let t = complete_response (clock e (trace w1)) q tokenResponse;
          w4 = resolvePromise t (reply 200 Success_page (setTokens t w1))
      in w4\<lparr>timers := Suc (timers w4)\<rparr>)"
  using assms by (simp add: oauth_callback_def Let_def)

lemma callback_success_fields:
  assumes "q_code q = Some code" and "code \<noteq> []"
    and "exchangeCodeForTokens e code w = (Inr (Some tokenResponse), w1)"
    and "promiseResolve w = promiseReject w"
  shows "server (oauth_callback e q w) = server w"
    and "promiseResolve (oauth_callback e q w) = None"
    and "promiseReject (oauth_callback e q w) = None"
    and "timers (oauth_callback e q w) = Suc (timers w)"
    and "closing (oauth_callback e q w) = closing w"
    and "promises (oauth_callback e q w) = promises w"
  using exchange_keeps [OF assms(3)] assms(4)
  by (simp_all add: callback_success [OF assms(1-3)] Let_def resolvePromise_def setTokens_def
      reply_def split: option.split)


lemma after_first_callback_eq:
  "after_first_callback = \<lparr>config = example_config,
     currentTokens = \<lparr>accessToken = Some ''tok0'', refreshToken = Some ''ref0'',
       merchantId = Some ''M0'', accessTokenExpiry = Some 5000, refreshTokenExpiry = Some 90000\<rparr>,
     server = Some 4000,
     state = ''5f2a'', promiseResolve = None, promiseReject = None, promises = 1,
     settled = [(0, Resolved example_tokens)],
     replies = [(200, Success_page)], timers = 1, closing = 0,
     trace = [Http_post (exchange_request_v2 example_config ''codeA'')]\<rparr>"
  by (simp add: after_first_callback_def oauth_callback_def with_code_def example_session_eq
      exchangeCodeForTokens_def Let_def send_post_def v2_env_def complete_response_def
      example_tokens_def truthy_def truthy_num_def setTokens_def reply_def resolvePromise_def)

lemma after_missing_code_eq:
  "oauth_callback legacy_env no_code example_session =
     \<lparr>config = example_config, currentTokens = initial_tokens, server = Some 4000,
     state = ''5f2a'', promiseResolve = None, promiseReject = None, promises = 1,
     settled = [(0, Rejected (Error ''Missing authorization code''))],
     replies = [(400, Text ''Error: Missing authorization code'')], timers = 0, closing = 0,
     trace = []\<rparr>"
  by (simp add: oauth_callback_def no_code_def missing_code_def reply_def rejectPromise_def
      example_session_eq)

lemma run_start_callback:
  "run e [Start 4000 ''5f2a'', Callback q] (initial example_config) =
     oauth_callback e q example_session"
  by (simp add: run_def example_session_eq startOAuthFlow_def initial_def Let_def)

lemma run_start_callback_start:
  "run e [Start 4000 ''5f2a'', Callback q, Start 4000 ''77aa''] (initial example_config) =
     startOAuthFlow 4000 ''77aa'' (oauth_callback e q example_session)"
  by (simp add: run_def example_session_eq startOAuthFlow_def initial_def Let_def)

text \<open>
  C6 as the specification words it fails on a body that is no token record: the v2
  endpoint answers 200 with the body \<open>null\<close>. Only the v2 request is sent, the legacy
  endpoint is never asked, and the flow fails with \<open>No tokens in response\<close>.
\<close>

theorem C6_counterexample:
  "trace (run null_body_env [Start 4000 ''5f2a'', Callback (with_code ''codeA'')]
      (initial example_config)) = [Http_post (exchange_request_v2 example_config ''codeA'')]
   \<and> settled (run null_body_env [Start 4000 ''5f2a'', Callback (with_code ''codeA'')]
      (initial example_config)) = [(0, Rejected (Error ''No tokens in response''))]
   \<and> replies (run null_body_env [Start 4000 ''5f2a'', Callback (with_code ''codeA'')]
      (initial example_config)) = [(500, Text ''Error: Failed to obtain tokens'')]"
  by (simp add: run_start_callback oauth_callback_def with_code_def example_session_eq
      exchangeCodeForTokens_def Let_def send_post_def null_body_env_def
      reply_def rejectPromise_def)

text \<open>
  C8. A callback request whose query has no \<open>code\<close> is answered with status 400; the
  pending promise, if there is one, is rejected with the error
  \<open>Missing authorization code\<close>; no request is sent to the authorization server; the
  stored tokens stay as they are.
\<close>

theorem C8_missing_code:
  assumes "q_code q = None"
  shows "replies (oauth_callback e q w) =
           replies w @ [(400, Text ''Error: Missing authorization code'')]
    \<and> settled (oauth_callback e q w) =
        settled w @ (case promiseReject w of None \<Rightarrow> []
                     | Some p \<Rightarrow> [(p, Rejected (Error ''Missing authorization code''))])
    \<and> trace (oauth_callback e q w) = trace w
    \<and> currentTokens (oauth_callback e q w) = currentTokens w"
proof -
  have "oauth_callback e q w = missing_code w"
    using assms by (simp add: oauth_callback_def)
  then show ?thesis
    by (simp add: missing_code_effect split: option.split)
qed

theorem C8_missing_code_witness:
  "replies (oauth_callback legacy_env no_code example_session) =
           [(400, Text ''Error: Missing authorization code'')]
    \<and> settled (oauth_callback legacy_env no_code example_session) =
        [(0, Rejected (Error ''Missing authorization code''))]
    \<and> trace (oauth_callback legacy_env no_code example_session) = []
    \<and> currentTokens (oauth_callback legacy_env no_code example_session) = initial_tokens"
proof -
  have a: "q_code no_code = None"
    by (simp add: no_code_def)
  show ?thesis
    using C8_missing_code [OF a, of legacy_env example_session]
    by (simp add: example_session_eq)
qed

text \<open>
  C10. A callback request with a code whose exchange yields a record writes that
  record, completed, to \<open>currentTokens\<close>, whether or not the promise is still pending.
  When the promise has been settled before, nothing more is delivered to the caller,
  and the stored tokens are overwritten all the same.
\<close>

theorem C10_store_written_after_resolution:
  assumes "q_code q = Some code" and "code \<noteq> []"
    and "exchangeCodeForTokens e code w = (Inr (Some tokenResponse), w1)"
    and "t = complete_response (clock e (trace w1)) q tokenResponse"
  shows "currentTokens (oauth_callback e q w) =
           \<lparr>accessToken = access_token t, refreshToken = refresh_token t,
            merchantId = merchant_id t, accessTokenExpiry = access_token_expiry t,
            refreshTokenExpiry = refresh_token_expiry t\<rparr>
       \<and> settled (oauth_callback e q w) =
           settled w @ (case promiseResolve w of None \<Rightarrow> [] | Some p \<Rightarrow> [(p, Resolved t)])"
  unfolding assms(4) using exchange_keeps [OF assms(3)]
  by (simp add: callback_success [OF assms(1-3)] Let_def resolvePromise_tokens
      resolvePromise_settled setTokens_def reply_def)

theorem C10_store_written_after_resolution_witness:
  "currentTokens (oauth_callback v2_env (with_code ''codeB'') after_first_callback) =
     \<lparr>accessToken = Some ''tok1'', refreshToken = Some ''ref1'',
       merchantId = Some ''M9'', accessTokenExpiry = Some 6000, refreshTokenExpiry = Some 91000\<rparr>
   \<and> settled (oauth_callback v2_env (with_code ''codeB'') after_first_callback) =
       [(0, Resolved example_tokens)]"
proof -
  let ?w = after_first_callback
  have a: "q_code (with_code ''codeB'') = Some ''codeB''" and b: "''codeB'' \<noteq> []"
    by (simp_all add: with_code_def)
  have c: "exchangeCodeForTokens v2_env ''codeB'' ?w =
      (Inr (Some second_tokens), send_post (exchange_request_v2 example_config ''codeB'') ?w)"
    by (simp add: exchangeCodeForTokens_def Let_def v2_env_def after_first_callback_eq)
  have d: "second_tokens = complete_response
      (clock v2_env (trace (send_post (exchange_request_v2 example_config ''codeB'') ?w)))
      (with_code ''codeB'') second_tokens"
    by (simp add: complete_response_def second_tokens_def truthy_def truthy_num_def)
  show ?thesis
    using C10_store_written_after_resolution [OF a b c d]
    by (simp add: after_first_callback_eq second_tokens_def)
qed

text \<open>
  C3, as the code has it, for a session that resolves with success. The two promise
  functions are cleared at once and a timer is set; the listener stays. A call of
  \<open>startOAuthFlow\<close> right after the resolution is rejected as already running, and so
  is one made after the timer has run \<open>closeServer\<close> while \<open>server.close\<close> has not
  completed. Once \<open>server.close\<close> has completed, \<open>server\<close> is \<open>null\<close>, and a call of
  \<open>startOAuthFlow\<close> is accepted: it rejects nothing, keeps its promise pending and
  starts a listener.
\<close>

theorem C3_ready_after_close:
  assumes "server w \<noteq> None" and "promiseResolve w = promiseReject w"
    and "q_code q = Some code" and "code \<noteq> []"
    and "exchangeCodeForTokens e code w = (Inr (Some tokenResponse), w1)"
    and "resolved = oauth_callback e q w"
    and "closing_down = timer_fires resolved"
    and "closed = close_completes closing_down"
  shows "promiseResolve resolved = None \<and> promiseReject resolved = None
    \<and> server resolved = server w \<and> timers resolved = Suc (timers w)
    \<and> closing resolved = closing w
    \<and> settled (startOAuthFlow port rnd resolved) =
        settled resolved @
          [(promises resolved, Rejected (Error ''OAuth server is already running''))]
    \<and> server closing_down = server w \<and> closing closing_down = Suc (closing w)
    \<and> settled (startOAuthFlow port rnd closing_down) =
        settled resolved @
          [(promises resolved, Rejected (Error ''OAuth server is already running''))]
    \<and> server closed = None
    \<and> settled (startOAuthFlow port rnd closed) = settled resolved
    \<and> promiseResolve (startOAuthFlow port rnd closed) = Some (promises resolved)
    \<and> promiseReject (startOAuthFlow port rnd closed) = Some (promises resolved)
    \<and> server (startOAuthFlow port rnd closed) = Some port"
proof -
  note f = callback_success_fields [OF assms(3-5) assms(2), folded assms(6)]
  have s: "server resolved \<noteq> None" using f(1) assms(1) by simp
  have t: "closing_down = resolved\<lparr>timers := timers w, closing := Suc (closing w)\<rparr>"
    unfolding assms(7) using s f(4,5) by (simp add: timer_fires_def closeServer_def)
  have c: "closed = resolved\<lparr>timers := timers w, closing := closing w, server := None\<rparr>"
    unfolding assms(8) t by (simp add: close_completes_def)
  show ?thesis
    using s f by (simp add: c t startOAuthFlow_def Let_def)
qed

theorem C3_ready_after_close_witness:
  "promiseResolve after_first_callback = None \<and> promiseReject after_first_callback = None
    \<and> server after_first_callback = Some 4000
    \<and> settled (startOAuthFlow 4000 ''77aa'' after_first_callback) =
        [(0, Resolved example_tokens), (1, Rejected (Error ''OAuth server is already running''))]
    \<and> server (timer_fires after_first_callback) = Some 4000
    \<and> closing (timer_fires after_first_callback) = 1
    \<and> settled (startOAuthFlow 4000 ''77aa'' (timer_fires after_first_callback)) =
        [(0, Resolved example_tokens), (1, Rejected (Error ''OAuth server is already running''))]
    \<and> server (close_completes (timer_fires after_first_callback)) = None
    \<and> settled (startOAuthFlow 4000 ''77aa'' (close_completes (timer_fires after_first_callback))) =
        [(0, Resolved example_tokens)]
    \<and> promiseResolve (startOAuthFlow 4000 ''77aa''
          (close_completes (timer_fires after_first_callback))) = Some 1
    \<and> promiseReject (startOAuthFlow 4000 ''77aa''
          (close_completes (timer_fires after_first_callback))) = Some 1
    \<and> server (startOAuthFlow 4000 ''77aa''
          (close_completes (timer_fires after_first_callback))) = Some 4000"
proof -
  have a: "server example_session \<noteq> None"
    and b: "promiseResolve example_session = promiseReject example_session"
    by (simp_all add: example_session_eq)
  have c: "q_code (with_code ''codeA'') = Some ''codeA''" and d: "''codeA'' \<noteq> []"
    by (simp_all add: with_code_def)
  have x: "exchangeCodeForTokens v2_env ''codeA'' example_session =
      (Inr (Some example_tokens),
       send_post (exchange_request_v2 example_config ''codeA'') example_session)"
    by (simp add: exchangeCodeForTokens_def Let_def v2_env_def example_session_eq)
  have f: "after_first_callback = oauth_callback v2_env (with_code ''codeA'') example_session"
    by (simp add: after_first_callback_def)
  have s: "server example_session = Some 4000" "promises after_first_callback = 1"
    "settled after_first_callback = [(0, Resolved example_tokens)]"
    "closing example_session = 0"
    by (simp_all add: example_session_eq after_first_callback_eq)
  show ?thesis
    using C3_ready_after_close [OF a b c d x f refl refl, of 4000 "''77aa''"]
    by (simp only: s append.simps One_nat_def)
qed

text \<open>
  C3 as the specification words it fails after a success and after a failure: in
  both runs the second call of \<open>startOAuthFlow\<close>, right after the resolution of the
  first, is rejected as already running.
\<close>

theorem C3_counterexample:
  "settled (run v2_env [Start 4000 ''5f2a'', Callback (with_code ''codeA''), Start 4000 ''77aa'']
      (initial example_config)) =
     [(0, Resolved example_tokens), (1, Rejected (Error ''OAuth server is already running''))]
   \<and> settled (run legacy_env [Start 4000 ''5f2a'', Callback no_code, Start 4000 ''77aa'']
      (initial example_config)) =
     [(0, Rejected (Error ''Missing authorization code'')),
      (1, Rejected (Error ''OAuth server is already running''))]"
  by (simp add: run_start_callback_start after_first_callback_def [symmetric]
      after_first_callback_eq after_missing_code_eq startOAuthFlow_def Let_def)






subsection \<open>Promises in every reachable state\<close>

lemma refresh_v1_keeps:
  "refresh_v1 e rt w = (r, w') \<Longrightarrow>
     promiseResolve w' = promiseResolve w \<and> promiseReject w' = promiseReject w \<and>
     settled w' = settled w \<and> promises w' = promises w \<and> server w' = server w"
  by (auto simp: refresh_v1_def Let_def send_post_def setTokens_def split: sum.splits option.splits)

lemma refresh_keeps:
  "refreshAccessToken e w = (r, w') \<Longrightarrow>
     promiseResolve w' = promiseResolve w \<and> promiseReject w' = promiseReject w \<and>
     settled w' = settled w \<and> promises w' = promises w \<and> server w' = server w"
  by (auto simp: refreshAccessToken_def Let_def send_post_def setTokens_def
      dest!: refresh_v1_keeps split: sum.splits option.splits if_splits)

lemma ensure_keeps:
  "ensureValidToken e w = (r, w') \<Longrightarrow>
     promiseResolve w' = promiseResolve w \<and> promiseReject w' = promiseReject w \<and>
     settled w' = settled w \<and> promises w' = promises w \<and> server w' = server w"
  by (auto simp: ensureValidToken_def dest!: refresh_keeps split: sum.splits prod.splits if_splits)

lemma baseClient_keeps:
  "baseClient e rq w = (r, w') \<Longrightarrow>
     promiseResolve w' = promiseResolve w \<and> promiseReject w' = promiseReject w \<and>
     settled w' = settled w \<and> promises w' = promises w \<and> server w' = server w"
proof (induction e rq w arbitrary: r w' rule: baseClient.induct)
  case (1 e rq w)
  obtain g w1 where g: "ensureValidToken e w = (g, w1)"
    by (cases "ensureValidToken e w")
  note k1 = ensure_keeps [OF g]
  show ?case
  proof (cases g)
    case (Inl err)
    with 1(2) g k1 show ?thesis by (auto simp: baseClient.simps [of e rq w])
  next
    case (Inr token)
    let ?rq1 = "rq\<lparr>authorization := Some (bearer token)\<rparr>"
    let ?w2 = "w1\<lparr>trace := trace w1 @ [Api_dispatch ?rq1]\<rparr>"
    show ?thesis
    proof (cases "api e (trace w1) ?rq1")
      case (No_response m)
      with 1(2) g Inr k1 show ?thesis by (auto simp: baseClient.simps [of e rq w] Let_def)
    next
      case (Response status body)
      show ?thesis
      proof (cases "200 \<le> status \<and> status < 300")
        case True
        with 1(2) g Inr Response k1 show ?thesis by (auto simp: baseClient.simps [of e rq w] Let_def)
      next
        case no2xx: False
        show ?thesis
        proof (cases "status = 401 \<and> \<not> retry_flag ?rq1")
          case False
          with 1(2) g Inr Response no2xx k1 show ?thesis
            by (auto simp add: baseClient.simps [of e rq w] Let_def)
        next
          case True
          obtain x w3 where x: "refreshAccessToken e ?w2 = (x, w3)"
            by (cases "refreshAccessToken e ?w2")
          note k3 = refresh_keeps [OF x]
          show ?thesis
          proof (cases x)
            case (Inl refreshError)
            with 1(2) g Inr Response no2xx True x k1 k3 show ?thesis
              by (auto simp: baseClient.simps [of e rq w] Let_def)
          next
            case (Inr tokens)
            have s: "baseClient e (?rq1\<lparr>retry_flag := True\<rparr>) w3 = (r, w')"
              using 1(2) g \<open>g = Inr token\<close> Response no2xx True x Inr
              by (simp add: baseClient.simps [of e rq w] Let_def)
            have "promiseResolve w' = promiseResolve w3 \<and> promiseReject w' = promiseReject w3 \<and>
              settled w' = settled w3 \<and> promises w' = promises w3 \<and> server w' = server w3"
              using 1(1) [OF g [symmetric] \<open>g = Inr token\<close> refl refl Response no2xx True x [symmetric] Inr s] .
            with k1 k3 show ?thesis by simp
          qed
        qed
      qed
    qed
  qed
qed

lemma promises_ok_frame:
  "promiseResolve w' = promiseResolve w \<and> promiseReject w' = promiseReject w \<and>
     settled w' = settled w \<and> promises w' = promises w \<and> server w' = server w \<Longrightarrow>
   promises_ok w \<Longrightarrow> promises_ok w'"
  by (auto simp: promises_ok_def split: option.splits)

lemma promises_ok_resolve: "promises_ok w \<Longrightarrow> promises_ok (resolvePromise v w)"
  by (auto simp: promises_ok_def resolvePromise_def split: option.splits)

lemma promises_ok_reject: "promises_ok w \<Longrightarrow> promises_ok (rejectPromise r w)"
  by (auto simp: promises_ok_def rejectPromise_def split: option.splits)

lemma promises_ok_start: "promises_ok w \<Longrightarrow> promises_ok (startOAuthFlow port rnd w)"
  by (auto simp: promises_ok_def startOAuthFlow_def Let_def list_all_iff split: option.splits)

lemma promises_ok_callback:
  assumes "promises_ok w"
  shows "promises_ok (oauth_callback e q w)"
proof -
  have m: "promises_ok (missing_code w)"
    unfolding missing_code_def
    by (rule promises_ok_reject, rule promises_ok_frame [OF _ assms]) (simp add: reply_def)
  show ?thesis
  proof (cases "q_code q")
    case None
    with m show ?thesis by (simp add: oauth_callback_def)
  next
    case (Some code)
    show ?thesis
    proof (cases "code = []")
      case True
      with Some m show ?thesis by (simp add: oauth_callback_def)
    next
      case False
      obtain r w1 where x: "exchangeCodeForTokens e code w = (r, w1)"
        by (cases "exchangeCodeForTokens e code w")
      have k: "promises_ok w1"
        by (rule promises_ok_frame [OF _ assms]) (simp add: exchange_keeps [OF x])
      have fail: "promises_ok (rejectPromise err (reply n body w1))" for err n body
        by (rule promises_ok_reject, rule promises_ok_frame [OF _ k]) (simp add: reply_def)
      show ?thesis
      proof (cases r)
        case (Inl err)
        with Some False x fail show ?thesis by (simp add: oauth_callback_def)
      next
        case (Inr body)
        show ?thesis
        proof (cases body)
          case None
          with Inr Some False x fail show ?thesis by (simp add: oauth_callback_def)
        next
          case (Some tokenResponse)
          let ?t = "complete_response (clock e (trace w1)) q tokenResponse"
          let ?w4 = "resolvePromise ?t (reply 200 Success_page (setTokens ?t w1))"
          have "promises_ok ?w4"
            by (rule promises_ok_resolve, rule promises_ok_frame [OF _ k])
              (simp add: reply_def setTokens_def)
          then have "promises_ok (?w4\<lparr>timers := Suc (timers ?w4)\<rparr>)"
            by (rule promises_ok_frame [rotated]) simp
          with Inr Some \<open>q_code q = Some code\<close> False x show ?thesis
            by (simp add: oauth_callback_def Let_def)
        qed
      qed
    qed
  qed
qed

lemma promises_ok_step: "promises_ok w \<Longrightarrow> promises_ok (step e ev w)"
proof (cases ev)
  case (Start port rnd)
  assume "promises_ok w"
  with Start show ?thesis by (simp add: promises_ok_start)
next
  case (Callback q)
  assume "promises_ok w"
  with Callback show ?thesis by (simp add: promises_ok_callback)
next
  case (Server_error err)
  assume "promises_ok w"
  with Server_error show ?thesis by (simp add: server_error_def promises_ok_reject)
next
  case Timer
  assume "promises_ok w"
  with Timer show ?thesis
    by (auto simp: timer_fires_def closeServer_def promises_ok_def split: option.splits)
next
  case Close_done
  assume "promises_ok w"
  with Close_done show ?thesis
    by (auto simp: close_completes_def promises_ok_def split: option.splits)
next
  case Refresh
  assume a: "promises_ok w"
  show ?thesis
    unfolding Refresh step.simps
    by (rule promises_ok_frame [OF refresh_keeps a]) (rule prod.collapse [symmetric])
next
  case Ensure
  assume a: "promises_ok w"
  show ?thesis
    unfolding Ensure step.simps
    by (rule promises_ok_frame [OF ensure_keeps a]) (rule prod.collapse [symmetric])
next
  case (Send rq)
  assume a: "promises_ok w"
  show ?thesis
    unfolding Send step.simps
    by (rule promises_ok_frame [OF baseClient_keeps a]) (rule prod.collapse [symmetric])
qed

lemma promises_ok_run: "promises_ok w \<Longrightarrow> promises_ok (run e evs w)"
  unfolding run_def by (induction evs arbitrary: w) (simp_all add: promises_ok_step)

lemma promises_ok_initial: "promises_ok (initial cfg)"
  by (simp add: promises_ok_def initial_def)

text \<open>
  Whatever happens, in whatever order: no promise is settled twice, and the two
  functions kept are always those of the same promise.
\<close>

lemma promise_settled_at_most_once:
  "distinct (map fst (settled (run e evs (initial cfg))))"
  using promises_ok_run [OF promises_ok_initial, of e evs cfg] by (simp add: promises_ok_def)

lemma promise_functions_together:
  "promiseResolve (run e evs (initial cfg)) = promiseReject (run e evs (initial cfg))"
  using promises_ok_run [OF promises_ok_initial, of e evs cfg] by (simp add: promises_ok_def)


subsection \<open>The request decorator\<close>

lemma guard_authenticated:
  "clock e [] = 1000 \<Longrightarrow> ensureValidToken e authenticated = (Inr (Some ''tok0''), authenticated)"
  by (simp add: ensureValidToken_def authenticated_eq hasValidTokens_def truthy_def)

lemma dispatched_append: "dispatched (a @ b) = dispatched a @ dispatched b"
  by (induction a rule: dispatched.induct) simp_all

lemma refresh_v1_dispatched:
  "dispatched (trace (snd (refresh_v1 e rt w))) = dispatched (trace w)"
  by (simp add: refresh_v1_def Let_def send_post_def setTokens_def dispatched_append
      split: sum.splits option.splits)

lemma refresh_dispatched:
  "dispatched (trace (snd (refreshAccessToken e w))) = dispatched (trace w)"
  by (simp add: refreshAccessToken_def Let_def send_post_def setTokens_def dispatched_append
      refresh_v1_dispatched split: sum.splits option.splits)

lemma ensure_dispatched:
  "dispatched (trace (snd (ensureValidToken e w))) = dispatched (trace w)"
  using refresh_dispatched [of e w]
  by (auto simp: ensureValidToken_def split: sum.splits prod.splits)

text \<open>
  C5, as the code has it. A request that has not been retried, passes the guard and
  is answered with 401 leads to one call of \<open>refreshAccessToken\<close> by the response
  interceptor. When that call throws, its error is what the caller gets, and the
  request is not sent again. When it returns, the request goes through the guard
  again: when the guard throws, its error is what the caller gets and the request is
  not sent again; when the guard yields a token, the request is sent once more, and
  what the caller gets is the outcome of that second attempt as it is (a 2xx response,
  a second 401, another status, no response), with nothing after it: no refresh and
  no third attempt. So the request is sent once, or twice, and never more.
\<close>

theorem C5_refresh_then_single_retry:
  assumes "\<not> retry_flag rq"
    and "ensureValidToken e w = (Inr token, w1)"
    and "rq1 = rq\<lparr>authorization := Some (bearer token)\<rparr>"
    and "api e (trace w1) rq1 = Response 401 body"
    and "w2 = w1\<lparr>trace := trace w1 @ [Api_dispatch rq1]\<rparr>"
  shows "baseClient e rq w =
     (case refreshAccessToken e w2 of
        (Inl refreshError, w3) \<Rightarrow> (Rejected_error refreshError, w3)
      | (Inr tokens, w3) \<Rightarrow>
          (case ensureValidToken e w3 of
             (Inl err, w4) \<Rightarrow> (Rejected_error err, w4)
           | (Inr token', w4) \<Rightarrow>
               (let rq2 = rq1\<lparr>retry_flag := True, authorization := Some (bearer token')\<rparr>;
                    w5 = w4\<lparr>trace := trace w4 @ [Api_dispatch rq2]\<rparr> in
                case api e (trace w4) rq2 of
                  No_response m \<Rightarrow> (Rejected_no_response m, w5)
                | Response status body' \<Rightarrow>
                    if 200 \<le> status \<and> status < 300 then (Fulfilled status body', w5)
                    else (Rejected_response status body', w5))))
   \<and> dispatched (trace (snd (baseClient e rq w))) =
       dispatched (trace w) @ rq1 #
         (case refreshAccessToken e w2 of
            (Inl refreshError, w3) \<Rightarrow> []
          | (Inr tokens, w3) \<Rightarrow>
              (case ensureValidToken e w3 of
                 (Inl err, w4) \<Rightarrow> []
               | (Inr token', w4) \<Rightarrow>
                   [rq1\<lparr>retry_flag := True, authorization := Some (bearer token')\<rparr>]))"
proof -
  obtain x w3 where r: "refreshAccessToken e w2 = (x, w3)"
    by (cases "refreshAccessToken e w2")
  have d1: "dispatched (trace w1) = dispatched (trace w)"
    using ensure_dispatched [of e w] assms(2) by simp
  have d3: "dispatched (trace w3) = dispatched (trace w) @ [rq1]"
    using refresh_dispatched [of e w2] r d1 by (simp add: assms(5) dispatched_append)
  show ?thesis
  proof (cases x)
    case (Inl refreshError)
    with assms r d3 show ?thesis
      by (simp add: baseClient.simps [of e rq w] Let_def)
  next
    case (Inr tokens)
    have first: "baseClient e rq w = baseClient e (rq1\<lparr>retry_flag := True\<rparr>) w3"
      using assms r Inr by (simp add: baseClient.simps [of e rq w] Let_def)
    obtain g w4 where g: "ensureValidToken e w3 = (g, w4)"
      by (cases "ensureValidToken e w3")
    have d4: "dispatched (trace w4) = dispatched (trace w) @ [rq1]"
      using ensure_dispatched [of e w3] g d3 by simp
    show ?thesis
    proof (cases g)
      case (Inl err)
      with r \<open>x = Inr tokens\<close> g d4 show ?thesis
        unfolding first
        by (simp add: baseClient.simps [of e "rq1\<lparr>retry_flag := True\<rparr>" w3])
    next
      case (Inr token')
      with r \<open>x = Inr tokens\<close> g d4 show ?thesis
        unfolding first
        by (auto simp: baseClient.simps [of e "rq1\<lparr>retry_flag := True\<rparr>" w3] Let_def
            dispatched_append split: api_outcome.split)
    qed
  qed
qed

lemma refresh_second_tokens:
  assumes "post_json e = (\<lambda>t r. Inr (Some second_tokens))"
  shows "refreshAccessToken e (authenticated\<lparr>trace := t\<rparr>) =
     (Inr second_tokens,
      setTokens second_tokens
        (authenticated\<lparr>trace := t @ [Http_post (refresh_request_v2 example_config ''ref0'')]\<rparr>))"
  by (simp add: refreshAccessToken_def assms authenticated_eq Let_def send_post_def setTokens_def)

lemma guard_second_tokens:
  assumes "clock e t = 1000"
  shows "ensureValidToken e (setTokens second_tokens (authenticated\<lparr>trace := t\<rparr>)) =
     (Inr (Some ''tok1''), setTokens second_tokens (authenticated\<lparr>trace := t\<rparr>))"
  by (simp add: ensureValidToken_def setTokens_def second_tokens_def hasValidTokens_def
      truthy_def assms)

theorem C5_refresh_then_single_retry_witness:
  "baseClient refresh_fails_env items_request authenticated =
     (Rejected_error refresh_error,
      authenticated\<lparr>trace :=
        [Api_dispatch (items_request\<lparr>authorization := Some ''Bearer tok0''\<rparr>),
         Http_post (refresh_request_v2 example_config ''ref0''),
         Http_post (refresh_request_v1 example_config ''ref0'')]\<rparr>)
   \<and> baseClient unauthorized_env items_request authenticated =
     (Rejected_response 401 ''unauthorized'',
      setTokens second_tokens (authenticated\<lparr>trace :=
        [Api_dispatch (items_request\<lparr>authorization := Some ''Bearer tok0''\<rparr>),
         Http_post (refresh_request_v2 example_config ''ref0''),
         Api_dispatch (items_request\<lparr>retry_flag := True,
           authorization := Some ''Bearer tok1''\<rparr>)]\<rparr>))
   \<and> baseClient retry_ok_env items_request authenticated =
     (Fulfilled 200 ''items'',
      setTokens second_tokens (authenticated\<lparr>trace :=
        [Api_dispatch (items_request\<lparr>authorization := Some ''Bearer tok0''\<rparr>),
         Http_post (refresh_request_v2 example_config ''ref0''),
         Api_dispatch (items_request\<lparr>retry_flag := True,
           authorization := Some ''Bearer tok1''\<rparr>)]\<rparr>))
   \<and> dispatched (trace (snd (baseClient retry_ok_env items_request authenticated))) =
        [items_request\<lparr>authorization := Some ''Bearer tok0''\<rparr>,
         items_request\<lparr>retry_flag := True, authorization := Some ''Bearer tok1''\<rparr>]"
proof -
  let ?rq1 = "items_request\<lparr>authorization := Some (bearer (Some ''tok0''))\<rparr>"
  let ?t2 = "trace authenticated @ [Api_dispatch ?rq1]"
  let ?w2 = "authenticated\<lparr>trace := ?t2\<rparr>"
  let ?t3 = "?t2 @ [Http_post (refresh_request_v2 example_config ''ref0'')]"
  let ?w3 = "setTokens second_tokens (authenticated\<lparr>trace := ?t3\<rparr>)"
  have n: "\<not> retry_flag items_request" by (simp add: items_request_def)
  have t: "trace authenticated = []" by (simp add: authenticated_eq)
  have b: "bearer (Some ''tok0'') = ''Bearer tok0''" "bearer (Some ''tok1'') = ''Bearer tok1''"
    by (simp_all add: bearer_def)
  have t3: "trace ?w3 = ?t3" by (simp add: setTokens_def)
  have w5: "?w3\<lparr>trace := x\<rparr> = setTokens second_tokens (authenticated\<lparr>trace := x\<rparr>)" for x
    by (simp add: setTokens_def)

  have g1: "ensureValidToken refresh_fails_env authenticated = (Inr (Some ''tok0''), authenticated)"
    by (rule guard_authenticated) (simp add: refresh_fails_env_def)
  have u1: "api refresh_fails_env (trace authenticated) ?rq1 = Response 401 ''unauthorized''"
    by (simp add: refresh_fails_env_def)
  have r1: "refreshAccessToken refresh_fails_env ?w2 =
     (Inl refresh_error,
      authenticated\<lparr>trace := ?t2 @
         [Http_post (refresh_request_v2 example_config ''ref0''),
          Http_post (refresh_request_v1 example_config ''ref0'')]\<rparr>)"
    by (rule refresh_fails)
  have first: "baseClient refresh_fails_env items_request authenticated =
     (Rejected_error refresh_error,
      authenticated\<lparr>trace := ?t2 @
         [Http_post (refresh_request_v2 example_config ''ref0''),
          Http_post (refresh_request_v1 example_config ''ref0'')]\<rparr>)"
    using C5_refresh_then_single_retry [OF n g1 refl u1 refl, THEN conjunct1] by (simp only: r1 prod.case sum.case)

  have g2: "ensureValidToken unauthorized_env authenticated = (Inr (Some ''tok0''), authenticated)"
    by (rule guard_authenticated) (simp add: unauthorized_env_def)
  have u2: "api unauthorized_env (trace authenticated) ?rq1 = Response 401 ''unauthorized''"
    by (simp add: unauthorized_env_def)
  have r2: "refreshAccessToken unauthorized_env ?w2 = (Inr second_tokens, ?w3)"
    by (rule refresh_second_tokens) (simp add: unauthorized_env_def)
  have g3: "ensureValidToken unauthorized_env (setTokens second_tokens (authenticated\<lparr>trace := x\<rparr>)) =
      (Inr (Some ''tok1''), setTokens second_tokens (authenticated\<lparr>trace := x\<rparr>))" for x
    by (rule guard_second_tokens) (simp add: unauthorized_env_def)
  have u3: "api unauthorized_env t r = Response 401 ''unauthorized''" for t r
    by (simp add: unauthorized_env_def)
  have second: "baseClient unauthorized_env items_request authenticated =
     (Rejected_response 401 ''unauthorized'',
      ?w3\<lparr>trace := trace ?w3 @ [Api_dispatch (?rq1\<lparr>retry_flag := True,
         authorization := Some (bearer (Some ''tok1''))\<rparr>)]\<rparr>)"
    using C5_refresh_then_single_retry [OF n g2 refl u2 refl, THEN conjunct1]
    by (simp add: r2 g3 u3 Let_def)

  have g4: "ensureValidToken retry_ok_env authenticated = (Inr (Some ''tok0''), authenticated)"
    by (rule guard_authenticated) (simp add: retry_ok_env_def)
  have u4: "api retry_ok_env (trace authenticated) ?rq1 = Response 401 ''unauthorized''"
    by (simp add: retry_ok_env_def items_request_def)
  have r4: "refreshAccessToken retry_ok_env ?w2 = (Inr second_tokens, ?w3)"
    by (rule refresh_second_tokens) (simp add: retry_ok_env_def)
  have g5: "ensureValidToken retry_ok_env (setTokens second_tokens (authenticated\<lparr>trace := x\<rparr>)) =
      (Inr (Some ''tok1''), setTokens second_tokens (authenticated\<lparr>trace := x\<rparr>))" for x
    by (rule guard_second_tokens) (simp add: retry_ok_env_def)
  have u5: "api retry_ok_env t (r\<lparr>retry_flag := True, authorization := a\<rparr>) =
      Response 200 ''items''" for t r a
    by (simp add: retry_ok_env_def)
  note c = C5_refresh_then_single_retry [OF n g4 refl u4 refl]
  have third: "baseClient retry_ok_env items_request authenticated =
     (Fulfilled 200 ''items'',
      ?w3\<lparr>trace := trace ?w3 @ [Api_dispatch (?rq1\<lparr>retry_flag := True,
         authorization := Some (bearer (Some ''tok1''))\<rparr>)]\<rparr>)"
    using c [THEN conjunct1] by (simp add: r4 g5 u5 Let_def)
  have fourth: "dispatched (trace (snd (baseClient retry_ok_env items_request authenticated))) =
     dispatched (trace authenticated) @
       [?rq1, ?rq1\<lparr>retry_flag := True, authorization := Some (bearer (Some ''tok1''))\<rparr>]"
    using c [THEN conjunct2] by (simp add: r4 g5)
  show ?thesis
    unfolding first second third fourth
    by (simp add: t b setTokens_def)
qed

text \<open>
  C5 as the specification words it fails in two ways. When the refresh fails, the
  request is sent once only. When the refresh succeeds and the refreshed token has
  expired by the time of the retry, the guard of the retry refreshes again: two
  refreshes for one 401.
\<close>

theorem C5_counterexample:
  "fst (baseClient refresh_fails_env items_request authenticated) = Rejected_error refresh_error
   \<and> trace (snd (baseClient refresh_fails_env items_request authenticated)) =
        [Api_dispatch (items_request\<lparr>authorization := Some ''Bearer tok0''\<rparr>),
         Http_post (refresh_request_v2 example_config ''ref0''),
         Http_post (refresh_request_v1 example_config ''ref0'')]
   \<and> fst (baseClient slow_env items_request authenticated) =
        Rejected_response 401 ''unauthorized''
   \<and> trace (snd (baseClient slow_env items_request authenticated)) =
        [Api_dispatch (items_request\<lparr>authorization := Some ''Bearer tok0''\<rparr>),
         Http_post (refresh_request_v2 example_config ''ref0''),
         Http_post (refresh_request_v2 example_config ''ref1''),
         Api_dispatch (items_request\<lparr>retry_flag := True,
           authorization := Some ''Bearer tok1''\<rparr>)]"
proof -
  let ?rq1 = "items_request\<lparr>authorization := Some ''Bearer tok0''\<rparr>"
  let ?rq2 = "items_request\<lparr>authorization := Some ''Bearer tok0'', retry_flag := True\<rparr>"
  let ?t3 = "[Api_dispatch ?rq1, Http_post (refresh_request_v2 example_config ''ref0'')]"
  let ?w3 = "setTokens second_tokens (authenticated\<lparr>trace := ?t3\<rparr>)"
  let ?t4 = "?t3 @ [Http_post (refresh_request_v2 example_config ''ref1'')]"
  let ?w4 = "setTokens second_tokens (authenticated\<lparr>trace := ?t4\<rparr>)"
  have n: "\<not> retry_flag items_request" by (simp add: items_request_def)
  have t: "trace authenticated = []" by (simp add: authenticated_eq)
  have g: "ensureValidToken refresh_fails_env authenticated = (Inr (Some ''tok0''), authenticated)"
    by (rule guard_authenticated) (simp add: refresh_fails_env_def)
  have u: "api refresh_fails_env t r = Response 401 ''unauthorized''" for t r
    by (simp add: refresh_fails_env_def)
  have a: "baseClient refresh_fails_env items_request authenticated =
     (Rejected_error refresh_error,
      authenticated\<lparr>trace := [Api_dispatch ?rq1,
         Http_post (refresh_request_v2 example_config ''ref0''),
         Http_post (refresh_request_v1 example_config ''ref0'')]\<rparr>)"
    by (simp add: baseClient.simps [of refresh_fails_env items_request authenticated] g t u n
        Let_def bearer_def refresh_fails)
  have g': "ensureValidToken slow_env authenticated = (Inr (Some ''tok0''), authenticated)"
    by (rule guard_authenticated) (simp add: slow_env_def)
  have u': "api slow_env t r = Response 401 ''unauthorized''" for t r
    by (simp add: slow_env_def)
  have r': "refreshAccessToken slow_env (authenticated\<lparr>trace := [Api_dispatch ?rq1]\<rparr>) =
      (Inr second_tokens, ?w3)"
    using refresh_second_tokens [of slow_env "[Api_dispatch ?rq1]"] by (simp add: slow_env_def)
  have g3: "ensureValidToken slow_env ?w3 = (Inr (Some ''tok1''), ?w4)"
    by (simp add: ensureValidToken_def refreshAccessToken_def setTokens_def second_tokens_def
        hasValidTokens_def truthy_def slow_env_def Let_def send_post_def authenticated_eq)
  have first: "baseClient slow_env items_request authenticated = baseClient slow_env ?rq2 ?w3"
    by (simp add: baseClient.simps [of slow_env items_request authenticated] g' t u' n
        Let_def bearer_def r')
  have second: "baseClient slow_env ?rq2 ?w3 =
     (Rejected_response 401 ''unauthorized'',
      ?w4\<lparr>trace := trace ?w4 @
        [Api_dispatch (?rq2\<lparr>authorization := Some (bearer (Some ''tok1''))\<rparr>)]\<rparr>)"
    by (subst baseClient.simps) (simp add: g3 u' Let_def)
  show ?thesis
    unfolding first second a by (simp add: setTokens_def bearer_def items_request_def)
qed

end
